theory Spec2Isabelle
  imports Main
begin

section \<open>Data model\<close>

text \<open>
  \<^verbatim>\<open>src/types/auth.ts\<close>: the two roles and the stored user document.  Optional
  members of the interface are options; the identifier \<^verbatim>\<open>_id\<close> is written \<open>uid\<close>.
\<close>

datatype UserRole = master_admin | admin

record User =
  uid :: string
  email :: string
  password :: string
  name :: string
  firstName :: "string option"
  lastName :: "string option"
  middleName :: "string option"
  gender :: "string option"
  birthday :: "string option"
  role :: UserRole
  assignedBarangayId :: "string option"
  createdAt :: string
  updatedAt :: string

text \<open>
  A barangay as the pages use it: its \<^verbatim>\<open>_id\<close> (written \<open>bid\<close>) and its
  \<^verbatim>\<open>name\<close> (written \<open>bname\<close>).
\<close>

record Barangay =
  bid :: string
  bname :: string

section \<open>The login route (POST)\<close>

subsection \<open>JavaScript values of the request body\<close>

text \<open>
  The parsed body is a JSON value; reading a member of it may give \<^verbatim>\<open>undefined\<close>.
  Numbers are kept as integers: the handler only tests them for being zero.
\<close>

datatype js_value =
    JUndefined
  | JNull
  | JBool bool
  | JNum int
  | JStr string
  | JArr "js_value list"
  | JObj "(string \<times> js_value) list"

text \<open>\<^verbatim>\<open>!v\<close> is true exactly on the falsy values.\<close>

fun truthy :: "js_value \<Rightarrow> bool" where
  "truthy JUndefined = False"
| "truthy JNull = False"
| "truthy (JBool b) = b"
| "truthy (JNum n) = (n \<noteq> 0)"
| "truthy (JStr s) = (s \<noteq> [])"
| "truthy (JArr xs) = True"
| "truthy (JObj kvs) = True"

text \<open>
  \<^verbatim>\<open>body?.k\<close>: the member of an object (the last occurrence of a repeated key is
  the one a parsed object keeps), \<^verbatim>\<open>undefined\<close> on every other value.
\<close>

fun optional_member :: "js_value \<Rightarrow> string \<Rightarrow> js_value" where
  "optional_member (JObj kvs) k =
     (case map_of (rev kvs) k of Some v \<Rightarrow> v | None \<Rightarrow> JUndefined)"
| "optional_member v k = JUndefined"

text \<open>The request: \<^verbatim>\<open>req.json()\<close> either rejects or gives the parsed body.\<close>

datatype request = MalformedBody | JsonBody js_value

subsection \<open>Thrown values\<close>

text \<open>
  A caught value is an \<^verbatim>\<open>Error\<close> instance (name, message, optional stack) or any
  other value, of which only its \<^verbatim>\<open>String(...)\<close> rendering is observed.
\<close>

datatype thrown =
    ErrorInstance string string "string option"
  | NonError string

fun instanceof_Error :: "thrown \<Rightarrow> bool" where
  "instanceof_Error (ErrorInstance n m s) = True"
| "instanceof_Error (NonError r) = False"

text \<open>\<^verbatim>\<open>String(e)\<close>; for an \<^verbatim>\<open>Error\<close> this is \<^verbatim>\<open>Error.prototype.toString\<close>.\<close>

fun String_of :: "thrown \<Rightarrow> string" where
  "String_of (ErrorInstance n m s) =
     (if n = [] then m else if m = [] then n else n @ '': '' @ m)"
| "String_of (NonError r) = r"

text \<open>\<^verbatim>\<open>e instanceof Error ? e.message : String(e)\<close>\<close>

fun errorDetails :: "thrown \<Rightarrow> string" where
  "errorDetails (ErrorInstance n m s) = m"
| "errorDetails (NonError r) = String_of (NonError r)"

text \<open>\<^verbatim>\<open>error instanceof Error ? error.message : "Failed to Authenticate User"\<close>\<close>

fun errorMessage :: "thrown \<Rightarrow> string" where
  "errorMessage (ErrorInstance n m s) = m"
| "errorMessage (NonError r) = ''Failed to Authenticate User''"

text \<open>\<^verbatim>\<open>error instanceof Error ? error.stack : undefined\<close>\<close>

fun errorStack :: "thrown \<Rightarrow> string option" where
  "errorStack (ErrorInstance n m s) = s"
| "errorStack (NonError r) = None"

text \<open>\<^verbatim>\<open>errorStack || String(error)\<close>: an absent or empty stack is falsy.\<close>

definition stack_or_string :: "thrown \<Rightarrow> string" where
  "stack_or_string e =
     (case errorStack e of
        Some s \<Rightarrow> (if s \<noteq> [] then s else String_of e)
      | None \<Rightarrow> String_of e)"

subsection \<open>Environment: the store client, bcrypt and NODE_ENV\<close>

text \<open>
  The MongoDB driver and bcryptjs are libraries, so they are parameters of the handler.
  A client answers \<^verbatim>\<open>db("main").collection("users").find({ email }).toArray()\<close>
  with the matching documents or throws; the documents have the shape of the
  \<^verbatim>\<open>User\<close> interface.  \<^verbatim>\<open>clientPromise\<close> rejects, or resolves to a client or
  to a falsy value.  \<^verbatim>\<open>bcrypt.compareSync\<close> returns a boolean or throws.
\<close>

type_synonym mongo_client = "js_value \<Rightarrow> thrown + User list"

record env =
  NODE_ENV :: "string option"
  clientPromise :: "thrown + mongo_client option"
  compareSync :: "js_value \<Rightarrow> string \<Rightarrow> thrown + bool"

text \<open>The accesses to the credential store that a run of the handler makes, in order.\<close>

datatype store_call = AwaitClient | FindUsers js_value

subsection \<open>Responses\<close>

text \<open>
  The object given to \<^verbatim>\<open>NextResponse.json\<close> with its status.  A member whose value
  is \<^verbatim>\<open>undefined\<close> is left out of the serialised body: it is \<open>None\<close> here.
\<close>

record response =
  status :: nat
  success :: bool
  error :: "string option"
  details :: "string option"
  data :: "User option"

definition failure :: "nat \<Rightarrow> string \<Rightarrow> string option \<Rightarrow> response" where
  "failure code msg det =
     \<lparr>status = code, success = False, error = Some msg, details = det, data = None\<rparr>"

text \<open>\<^verbatim>\<open>process.env.NODE_ENV === "development" ? d : undefined\<close>\<close>

definition development_only :: "env \<Rightarrow> string \<Rightarrow> string option" where
  "development_only e d = (if NODE_ENV e = Some ''development'' then Some d else None)"

subsection \<open>The handler\<close>

text \<open>
  The handler, branch by branch in the order of the source.  The result is the response
  and the store accesses made before it was produced.  The three \<^verbatim>\<open>catch\<close> blocks
  are the three 500 responses: connection, query, and the outer one, which in this
  model is reached when \<^verbatim>\<open>compareSync\<close> throws.  The calls of
  \<^verbatim>\<open>console.error\<close> are left out.
\<close>

definition connection_failed :: "env \<Rightarrow> string \<Rightarrow> response" where
  "connection_failed e det =
     failure 500 ''Database connection failed. Please check your MongoDB configuration.''
       (development_only e det)"

definition query_failed :: "env \<Rightarrow> thrown \<Rightarrow> response" where
  "query_failed e queryError =
     failure 500 ''Database query failed.'' (development_only e (errorDetails queryError))"

definition unexpected_failure :: "env \<Rightarrow> thrown \<Rightarrow> response" where
  "unexpected_failure e err =
     failure 500 (errorMessage err) (development_only e (stack_or_string err))"

definition check_password :: "env \<Rightarrow> js_value \<Rightarrow> User list \<Rightarrow> response" where
  "check_password e passwordv userData =
     (case userData of
        [] \<Rightarrow> failure 404 ''User not found'' None
      | u # rest \<Rightarrow>
          (case compareSync e passwordv (password u) of
             Inl err \<Rightarrow> unexpected_failure e err
           | Inr isPasswordValid \<Rightarrow>
               if \<not> isPasswordValid then failure 401 ''Invalid Password'' None
               else \<lparr>status = 200, success = True, error = None, details = None,
                      data = Some u\<rparr>))"

definition lookup_user :: "env \<Rightarrow> js_value \<Rightarrow> js_value \<Rightarrow> response \<times> store_call list" where
  "lookup_user e emailv passwordv =
     (case clientPromise e of
        Inl dbError \<Rightarrow> (connection_failed e (errorDetails dbError), [AwaitClient])
      | Inr None \<Rightarrow>
          (connection_failed e ''MongoDB client is not initialized'', [AwaitClient])
      | Inr (Some client) \<Rightarrow>
          (case client emailv of
             Inl queryError \<Rightarrow> (query_failed e queryError, [AwaitClient, FindUsers emailv])
           | Inr userData \<Rightarrow>
               (check_password e passwordv userData, [AwaitClient, FindUsers emailv])))"

definition POST :: "env \<Rightarrow> request \<Rightarrow> response \<times> store_call list" where
  "POST e req =
     (case req of
        MalformedBody \<Rightarrow> (failure 400 ''Invalid request body'' None, [])
      | JsonBody body \<Rightarrow>
          (let emailv = optional_member body ''email'' in
           if \<not> truthy emailv then (failure 400 ''Email is required'' None, [])
           else
             (let passwordv = optional_member body ''password'' in
              if \<not> truthy passwordv then (failure 400 ''Password is required'' None, [])
              else lookup_user e emailv passwordv)))"

text \<open>A login request carrying the two strings, as the login form sends it.\<close>

definition login_request :: "string \<Rightarrow> string \<Rightarrow> request" where
  "login_request em pw = JsonBody (JObj [(''email'', JStr em), (''password'', JStr pw)])"

section \<open>Students page: the visible barangays\<close>

text \<open>
  \<^verbatim>\<open>StudentsPage.filteredBarangays\<close>.  The user of the auth store may be
  \<^verbatim>\<open>null\<close>; an assigned barangay is truthy when it is present and not the empty
  string.
\<close>

definition filteredBarangays :: "User option \<Rightarrow> Barangay list \<Rightarrow> Barangay list" where
  "filteredBarangays user barangays =
     (case user of
        None \<Rightarrow> barangays
      | Some u \<Rightarrow>
          (case assignedBarangayId u of
             None \<Rightarrow> barangays
           | Some a \<Rightarrow>
               if role u = admin \<and> a \<noteq> [] then filter (\<lambda>b. bid b = a) barangays
               else barangays))"

section \<open>Protected layout: the sidebar\<close>

text \<open>Navigation items as (name, href); the icons are left out.\<close>

definition commonNavItems :: "(string \<times> string) list" where
  "commonNavItems =
     [(''Dashboard'', ''/dashboard''),
      (''Student Master List'', ''/students''),
      (''Student Score Summary'', ''/progress''),
      (''Settings'', ''/settings'')]"

definition masterAdminNavItems :: "(string \<times> string) list" where
  "masterAdminNavItems = [(''Admin Management'', ''/admin'')]"

definition navItems :: "User option \<Rightarrow> (string \<times> string) list" where
  "navItems user =
     (case user of
        None \<Rightarrow> commonNavItems
      | Some u \<Rightarrow>
          if role u = master_admin then commonNavItems @ masterAdminNavItems
          else commonNavItems)"

section \<open>Admin management page\<close>

text \<open>
  The part of \<^verbatim>\<open>AdminManagementPage\<close> that decides who may do what: the redirect
  effect, the action buttons of the table, \<^verbatim>\<open>loadAdmins\<close>,
  \<^verbatim>\<open>openEditDialog\<close> and \<^verbatim>\<open>handleDeleteAdmin\<close>.  The auth service is imported
  from another module, so it is a parameter: it works on a storage of type \<open>'s\<close>.
\<close>

record 's authService =
  getStoredUsers :: "'s \<Rightarrow> thrown + User list"
  deleteStoredUser :: "string \<Rightarrow> 's \<Rightarrow> (thrown + bool) \<times> 's"

record page_state =
  admins :: "User list"
  isLoading :: bool
  isEditDialogOpen :: bool
  editingAdmin :: "User option"

text \<open>
  The effect \<^verbatim>\<open>if (user && user.role !== "master_admin") router.push("/dashboard")\<close>:
  the path pushed, if any.
\<close>

definition redirect_effect :: "User option \<Rightarrow> string option" where
  "redirect_effect user =
     (case user of
        None \<Rightarrow> None
      | Some u \<Rightarrow> if role u \<noteq> master_admin then Some ''/dashboard'' else None)"

text \<open>
  The buttons of one table row, each with the argument of its handler: the edit button
  always, the delete button unless the row is a master admin.
\<close>

datatype control = EditButton User | DeleteButton string

definition row_actions :: "User \<Rightarrow> control list" where
  "row_actions a =
     EditButton a # (if role a \<noteq> master_admin then [DeleteButton (uid a)] else [])"

text \<open>The table is rendered once loading has finished, one row for each admin.\<close>

definition table_controls :: "page_state \<Rightarrow> control list" where
  "table_controls ps = (if isLoading ps then [] else concat (map row_actions (admins ps)))"

text \<open>
  What the page gives for a user and a state: the redirect of its effect and the
  buttons it renders.  The rendering does not read the user.
\<close>

record page_view =
  redirect :: "string option"
  controls :: "control list"

definition AdminManagementPage :: "User option \<Rightarrow> page_state \<Rightarrow> page_view" where
  "AdminManagementPage user ps =
     \<lparr>redirect = redirect_effect user, controls = table_controls ps\<rparr>"

text \<open>\<^verbatim>\<open>loadAdmins\<close>: an error of the service is logged and the list is kept.\<close>

definition loadAdmins :: "'s authService \<Rightarrow> 's \<Rightarrow> page_state \<Rightarrow> page_state" where
  "loadAdmins svc st ps =
     (case getStoredUsers svc st of
        Inl err \<Rightarrow> ps
      | Inr users \<Rightarrow> ps\<lparr>admins := users\<rparr>)"

definition openEditDialog :: "User \<Rightarrow> page_state \<Rightarrow> page_state" where
  "openEditDialog a ps = ps\<lparr>editingAdmin := Some a, isEditDialogOpen := True\<rparr>"

text \<open>
  \<^verbatim>\<open>handleDeleteAdmin\<close>; \<open>confirmed\<close> is the answer to the confirmation prompt.
  The handler checks no role.
\<close>

definition handleDeleteAdmin ::
    "'s authService \<Rightarrow> bool \<Rightarrow> string \<Rightarrow> 's \<times> page_state \<Rightarrow> 's \<times> page_state" where
  "handleDeleteAdmin svc confirmed adminId sp =
     (case sp of (st, ps) \<Rightarrow>
        if \<not> confirmed then (st, ps)
        else
          (case deleteStoredUser svc adminId st of
             (Inl err, st') \<Rightarrow> (st', ps)
           | (Inr ok, st') \<Rightarrow> if ok then (st', loadAdmins svc st' ps) else (st', ps)))"

text \<open>
  A click runs the handler of a button that the page renders; a button that is not
  rendered cannot be clicked.
\<close>

definition click ::
    "'s authService \<Rightarrow> User option \<Rightarrow> bool \<Rightarrow> control \<Rightarrow> 's \<times> page_state \<Rightarrow> 's \<times> page_state" where
  "click svc user confirmed c sp =
     (if c \<in> set (controls (AdminManagementPage user (snd sp))) then
        (case c of
           EditButton a \<Rightarrow> (fst sp, openEditDialog a (snd sp))
         | DeleteButton adminId \<Rightarrow> handleDeleteAdmin svc confirmed adminId sp)
      else sp)"

section \<open>Sample data\<close>

text \<open>
  Concrete accounts, a collection and a service over a list, on which the theorems
  below are instantiated.  The toy hash of a password \<open>p\<close> is \<open>hash:p\<close>.
\<close>

definition mk_user :: "string \<Rightarrow> string \<Rightarrow> string \<Rightarrow> UserRole \<Rightarrow> string option \<Rightarrow> User" where
  "mk_user i em pwhash r brgy =
     \<lparr>uid = i, email = em, password = pwhash, name = em, firstName = None,
      lastName = None, middleName = None, gender = None, birthday = None, role = r,
      assignedBarangayId = brgy, createdAt = ''2024-01-01'', updatedAt = ''2024-01-01''\<rparr>"

definition root_user :: User where
  "root_user = mk_user ''1'' ''root@x.com'' ''hash:rootpw'' master_admin None"

definition alice :: User where
  "alice = mk_user ''2'' ''a@x.com'' ''hash:pw1'' admin (Some ''BrgyA'')"

definition carol :: User where
  "carol = mk_user ''3'' ''c@x.com'' ''hash:pw3'' admin None"

definition alice_twin :: User where
  "alice_twin = mk_user ''4'' ''a@x.com'' ''hash:other'' admin (Some ''BrgyB'')"

text \<open>A collection that answers a query for an email with the documents having it.\<close>

definition users_collection :: "User list \<Rightarrow> mongo_client" where
  "users_collection docs q = Inr (filter (\<lambda>u. JStr (email u) = q) docs)"

text \<open>
  A stand-in for \<^verbatim>\<open>bcrypt.compareSync\<close> on the toy hash.  As bcryptjs does, it
  throws an \<^verbatim>\<open>Error\<close> with the message "Illegal arguments: " followed by the
  \<^verbatim>\<open>typeof\<close> of both arguments when the password is not a string.
\<close>

fun typeof :: "js_value \<Rightarrow> string" where
  "typeof JUndefined = ''undefined''"
| "typeof JNull = ''object''"
| "typeof (JBool b) = ''boolean''"
| "typeof (JNum n) = ''number''"
| "typeof (JStr s) = ''string''"
| "typeof (JArr xs) = ''object''"
| "typeof (JObj kvs) = ''object''"

definition toy_compareSync :: "js_value \<Rightarrow> string \<Rightarrow> thrown + bool" where
  "toy_compareSync s h =
     (case s of
        JStr p \<Rightarrow> Inr (h = ''hash:'' @ p)
      | _ \<Rightarrow> Inl (ErrorInstance ''Error'' (''Illegal arguments: '' @ typeof s @ '', string'')
                  (Some ''Error: Illegal arguments at bcrypt.compareSync'')))"

definition sample_env :: "string \<Rightarrow> User list \<Rightarrow> env" where
  "sample_env mode docs =
     \<lparr>NODE_ENV = Some mode, clientPromise = Inr (Some (users_collection docs)),
      compareSync = toy_compareSync\<rparr>"

definition list_service :: "(User list) authService" where
  "list_service =
     \<lparr>getStoredUsers = (\<lambda>st. Inr st),
      deleteStoredUser = (\<lambda>i st. (Inr (i \<in> set (map uid st)), filter (\<lambda>u. uid u \<noteq> i) st))\<rparr>"

definition loaded_page :: "User list \<Rightarrow> page_state" where
  "loaded_page us =
     \<lparr>admins = us, isLoading = False, isEditDialogOpen = False, editingAdmin = None\<rparr>"

definition brgyA :: Barangay where
  "brgyA = \<lparr>bid = ''BrgyA'', bname = ''Barangay A''\<rparr>"

definition brgyB :: Barangay where
  "brgyB = \<lparr>bid = ''BrgyB'', bname = ''Barangay B''\<rparr>"

section \<open>Properties of the login route\<close>

text \<open>
  C10. A request whose body does not parse as JSON is answered with status 400 and the
  error "Invalid request body", whatever the environment, and the store is not accessed.
\<close>

theorem malformed_body_rejected:
  "POST e MalformedBody =
     (\<lparr>status = 400, success = False, error = Some ''Invalid request body'',
       details = None, data = None\<rparr>, [])"
  by (simp add: POST_def failure_def)

text \<open>
  C7. When the email or the password of the body is falsy (missing, or the empty
  string), the handler answers 400 with the matching validation error and makes no
  store access at all.
\<close>

theorem empty_credentials_short_circuit:
  assumes "\<not> truthy (optional_member body ''email'')
           \<or> \<not> truthy (optional_member body ''password'')"
  shows "status (fst (POST e (JsonBody body))) = 400
         \<and> success (fst (POST e (JsonBody body))) = False
         \<and> (error (fst (POST e (JsonBody body))) = Some ''Email is required''
            \<or> error (fst (POST e (JsonBody body))) = Some ''Password is required'')
         \<and> data (fst (POST e (JsonBody body))) = None
         \<and> snd (POST e (JsonBody body)) = []"
  using assms by (auto simp add: POST_def failure_def Let_def)

theorem empty_credentials_short_circuit_witness:
  "status (fst (POST (sample_env ''production'' [alice]) (login_request [] ''x''))) = 400
   \<and> snd (POST (sample_env ''production'' [alice]) (login_request [] ''x'')) = []
   \<and> status (fst (POST (sample_env ''production'' [alice]) (login_request ''x@x.com'' []))) = 400
   \<and> snd (POST (sample_env ''production'' [alice]) (login_request ''x@x.com'' [])) = []"
proof -
  have e: "\<not> truthy (optional_member (JObj [(''email'', JStr []), (''password'', JStr ''x'')]) ''email'')"
    by simp
  have p: "\<not> truthy (optional_member (JObj [(''email'', JStr ''x@x.com''), (''password'', JStr [])]) ''password'')"
    by simp
  note a = empty_credentials_short_circuit [OF disjI1 [OF e], of "sample_env ''production'' [alice]"]
  note b = empty_credentials_short_circuit [OF disjI2 [OF p], of "sample_env ''production'' [alice]"]
  show ?thesis using a b
    by (simp add: login_request_def)
qed

subsection \<open>Reaching the store\<close>

lemma POST_validated:
  assumes "truthy (optional_member body ''email'')"
    and "truthy (optional_member body ''password'')"
  shows "POST e (JsonBody body) =
           lookup_user e (optional_member body ''email'') (optional_member body ''password'')"
  using assms by (simp add: POST_def Let_def)

lemma lookup_user_found:
  assumes "clientPromise e = Inr (Some client)"
    and "client emailv = Inr userData"
  shows "lookup_user e emailv passwordv =
           (check_password e passwordv userData, [AwaitClient, FindUsers emailv])"
  using assms by (simp add: lookup_user_def)

lemma check_password_first:
  assumes "compareSync e passwordv (password u) = Inr ok"
  shows "check_password e passwordv (u # rest) =
           (if ok then \<lparr>status = 200, success = True, error = None, details = None,
                        data = Some u\<rparr>
            else failure 401 ''Invalid Password'' None)"
  using assms by (simp add: check_password_def)

lemma check_password_success:
  assumes "success (check_password e passwordv userData)"
  shows "\<exists>u rest. userData = u # rest
           \<and> check_password e passwordv userData =
               \<lparr>status = 200, success = True, error = None, details = None, data = Some u\<rparr>"
  using assms
  by (cases userData)
     (auto simp add: check_password_def failure_def unexpected_failure_def
           split: sum.splits if_splits)

lemma lookup_user_success:
  assumes "success (fst (lookup_user e emailv passwordv))"
  shows "\<exists>client u rest. clientPromise e = Inr (Some client)
           \<and> client emailv = Inr (u # rest)
           \<and> fst (lookup_user e emailv passwordv) =
               \<lparr>status = 200, success = True, error = None, details = None, data = Some u\<rparr>"
proof (cases "clientPromise e")
  case (Inl dbError)
  with assms show ?thesis
    by (simp add: lookup_user_def connection_failed_def failure_def)
next
  case (Inr c)
  show ?thesis
  proof (cases c)
    case None
    with Inr assms show ?thesis
      by (simp add: lookup_user_def connection_failed_def failure_def)
  next
    case (Some client)
    show ?thesis
    proof (cases "client emailv")
      case (Inl queryError)
      with Inr Some assms show ?thesis
        by (simp add: lookup_user_def query_failed_def failure_def)
    next
      case found: (Inr userData)
      from Inr Some found have l: "lookup_user e emailv passwordv =
          (check_password e passwordv userData, [AwaitClient, FindUsers emailv])"
        by (simp add: lookup_user_found)
      with assms have "success (check_password e passwordv userData)" by simp
      from check_password_success [OF this] obtain u rest where
        "userData = u # rest"
        "check_password e passwordv userData =
           \<lparr>status = 200, success = True, error = None, details = None, data = Some u\<rparr>"
        by blast
      with Inr Some found l show ?thesis by simp
    qed
  qed
qed

lemma details_absent_outside_development:
  assumes "NODE_ENV e \<noteq> Some ''development''"
  shows "details (fst (POST e req)) = None"
  using assms
  by (cases req)
     (auto simp add: POST_def Let_def lookup_user_def check_password_def failure_def
           connection_failed_def query_failed_def unexpected_failure_def development_only_def
           split: sum.splits option.splits list.splits)

subsection \<open>What a successful login returns\<close>

text \<open>
  C1, as stated in the specification: the success response leaves the password hash out.
  It does not hold: the handler puts the stored document itself into the response, so
  a successful login of the sample account returns its hash.
\<close>

theorem success_response_password_counterexample:
  "success (fst (POST (sample_env ''production'' [alice]) (login_request ''a@x.com'' ''pw1'')))
   \<and> map_option password
        (data (fst (POST (sample_env ''production'' [alice]) (login_request ''a@x.com'' ''pw1''))))
      = Some ''hash:pw1''"
  by (simp add: POST_def login_request_def sample_env_def lookup_user_def check_password_def
        users_collection_def toy_compareSync_def alice_def mk_user_def)

text \<open>
  C1, amended: every success response of the handler has status 200 and carries, as its
  data, the first document that the store returned for the email of the request,
  unchanged, its password member included.
\<close>

theorem success_response_is_stored_document:
  assumes "success (fst (POST e req))"
  shows "\<exists>body client u rest.
           req = JsonBody body
           \<and> clientPromise e = Inr (Some client)
           \<and> client (optional_member body ''email'') = Inr (u # rest)
           \<and> fst (POST e req) =
               \<lparr>status = 200, success = True, error = None, details = None, data = Some u\<rparr>"
proof (cases req)
  case MalformedBody
  with assms show ?thesis by (simp add: POST_def failure_def)
next
  case (JsonBody body)
  have te: "truthy (optional_member body ''email'')"
    using assms JsonBody by (auto simp add: POST_def Let_def failure_def split: if_splits)
  have tp: "truthy (optional_member body ''password'')"
    using assms JsonBody te by (auto simp add: POST_def Let_def failure_def split: if_splits)
  have eq: "POST e req =
      lookup_user e (optional_member body ''email'') (optional_member body ''password'')"
    using JsonBody POST_validated [OF te tp] by simp
  with assms have "success (fst (lookup_user e (optional_member body ''email'')
      (optional_member body ''password'')))" by simp
  from lookup_user_success [OF this] eq JsonBody show ?thesis by auto
qed

theorem success_response_is_stored_document_witness:
  "success (fst (POST (sample_env ''production'' [alice]) (login_request ''a@x.com'' ''pw1'')))
   \<and> (\<exists>body client u rest.
         login_request ''a@x.com'' ''pw1'' = JsonBody body
         \<and> clientPromise (sample_env ''production'' [alice]) = Inr (Some client)
         \<and> client (optional_member body ''email'') = Inr (u # rest)
         \<and> fst (POST (sample_env ''production'' [alice]) (login_request ''a@x.com'' ''pw1'')) =
             \<lparr>status = 200, success = True, error = None, details = None, data = Some u\<rparr>)"
proof -
  have s: "success (fst (POST (sample_env ''production'' [alice])
      (login_request ''a@x.com'' ''pw1'')))"
    by (simp add: POST_def login_request_def sample_env_def lookup_user_def check_password_def
          users_collection_def toy_compareSync_def alice_def mk_user_def)
  from s success_response_is_stored_document [OF s] show ?thesis by blast
qed

subsection \<open>Outcomes of a lookup\<close>

text \<open>
  C5, as stated in the specification: an email that the store does not hold gives
  "User not found" for any password.  It does not hold for the empty password: the
  validation of the password comes first and answers 400.
\<close>

theorem unknown_email_empty_password_counterexample:
  "users_collection [alice] (JStr ''nobody@x.com'') = Inr []
   \<and> fst (POST (sample_env ''production'' [alice]) (login_request ''nobody@x.com'' []))
       = failure 400 ''Password is required'' None"
  by (simp add: POST_def login_request_def users_collection_def alice_def mk_user_def)

text \<open>
  C5, amended: for a non-empty email and a non-empty password, with the store reachable,
  an email with no document gives 404 "User not found"; an email with exactly one
  document \<open>u\<close> gives the success response exactly when \<^verbatim>\<open>compareSync\<close> accepts the
  password against the stored hash of \<open>u\<close>, and 401 "Invalid Password" when it rejects it.
\<close>

theorem authenticate_outcomes:
  assumes "optional_member body ''email'' = JStr em" and "em \<noteq> []"
    and "optional_member body ''password'' = JStr pw" and "pw \<noteq> []"
    and "clientPromise e = Inr (Some client)"
  shows "(client (JStr em) = Inr [] \<longrightarrow>
            fst (POST e (JsonBody body)) = failure 404 ''User not found'' None)
         \<and> (client (JStr em) = Inr [u] \<and> compareSync e (JStr pw) (password u) = Inr ok \<longrightarrow>
              success (fst (POST e (JsonBody body))) = ok
              \<and> fst (POST e (JsonBody body)) =
                  (if ok then \<lparr>status = 200, success = True, error = None, details = None,
                               data = Some u\<rparr>
                   else failure 401 ''Invalid Password'' None))"
proof -
  have eq: "POST e (JsonBody body) = lookup_user e (JStr em) (JStr pw)"
    using assms POST_validated [of body e] by simp
  have none: "fst (POST e (JsonBody body)) = failure 404 ''User not found'' None"
    if "client (JStr em) = Inr []"
    using that eq lookup_user_found [OF assms(5), of "JStr em" "[]" "JStr pw"]
    by (simp add: check_password_def)
  have one: "fst (POST e (JsonBody body)) =
      (if ok then \<lparr>status = 200, success = True, error = None, details = None, data = Some u\<rparr>
       else failure 401 ''Invalid Password'' None)"
    if "client (JStr em) = Inr [u]" and "compareSync e (JStr pw) (password u) = Inr ok"
    using that eq lookup_user_found [OF assms(5), of "JStr em" "[u]" "JStr pw"]
      check_password_first [of e "JStr pw" u ok "[]"]
    by simp
  from none one show ?thesis by (auto simp add: failure_def)
qed

theorem authenticate_outcomes_witness:
  "fst (POST (sample_env ''production'' [alice]) (login_request ''nobody@x.com'' ''pw1''))
     = failure 404 ''User not found'' None
   \<and> fst (POST (sample_env ''production'' [alice]) (login_request ''a@x.com'' ''pw1''))
     = \<lparr>status = 200, success = True, error = None, details = None, data = Some alice\<rparr>
   \<and> fst (POST (sample_env ''production'' [alice]) (login_request ''a@x.com'' ''wrong''))
     = failure 401 ''Invalid Password'' None"
proof -
  let ?e = "sample_env ''production'' [alice]"
  have c: "clientPromise ?e = Inr (Some (users_collection [alice]))"
    by (simp add: sample_env_def)
  have absent: "users_collection [alice] (JStr ''nobody@x.com'') = Inr []"
    by (simp add: users_collection_def alice_def mk_user_def)
  have present: "users_collection [alice] (JStr ''a@x.com'') = Inr [alice]"
    by (simp add: users_collection_def alice_def mk_user_def)
  have good: "compareSync ?e (JStr ''pw1'') (password alice) = Inr True"
    by (simp add: sample_env_def toy_compareSync_def alice_def mk_user_def)
  have bad: "compareSync ?e (JStr ''wrong'') (password alice) = Inr False"
    by (simp add: sample_env_def toy_compareSync_def alice_def mk_user_def)
  have m1: "optional_member (JObj [(''email'', JStr ''nobody@x.com''), (''password'', JStr ''pw1'')])
      ''email'' = JStr ''nobody@x.com''" by simp
  have m2: "optional_member (JObj [(''email'', JStr ''nobody@x.com''), (''password'', JStr ''pw1'')])
      ''password'' = JStr ''pw1''" by simp
  have m3: "optional_member (JObj [(''email'', JStr ''a@x.com''), (''password'', JStr ''pw1'')])
      ''email'' = JStr ''a@x.com''" by simp
  have m4: "optional_member (JObj [(''email'', JStr ''a@x.com''), (''password'', JStr ''pw1'')])
      ''password'' = JStr ''pw1''" by simp
  have m5: "optional_member (JObj [(''email'', JStr ''a@x.com''), (''password'', JStr ''wrong'')])
      ''email'' = JStr ''a@x.com''" by simp
  have m6: "optional_member (JObj [(''email'', JStr ''a@x.com''), (''password'', JStr ''wrong'')])
      ''password'' = JStr ''wrong''" by simp
  have n1: "''nobody@x.com'' \<noteq> []" and n2: "''pw1'' \<noteq> []" and n3: "''a@x.com'' \<noteq> []"
    and n4: "''wrong'' \<noteq> []" by simp_all
  note r1 = authenticate_outcomes [OF m1 n1 m2 n2 c, of alice True]
  note r2 = authenticate_outcomes [OF m3 n3 m4 n2 c, of alice True]
  note r3 = authenticate_outcomes [OF m5 n3 m6 n4 c, of alice False]
  from r1 absent have a: "fst (POST ?e (login_request ''nobody@x.com'' ''pw1''))
      = failure 404 ''User not found'' None"
    by (simp add: login_request_def)
  from r2 present good have b: "fst (POST ?e (login_request ''a@x.com'' ''pw1''))
      = \<lparr>status = 200, success = True, error = None, details = None, data = Some alice\<rparr>"
    by (simp add: login_request_def)
  from r3 present bad have d: "fst (POST ?e (login_request ''a@x.com'' ''wrong''))
      = failure 401 ''Invalid Password'' None"
    by (simp add: login_request_def)
  from a b d show ?thesis by simp
qed

text \<open>
  C6, as stated in the specification: an email with more than one document is answered
  with an infrastructure failure and no document is picked.  It does not hold: with two
  documents for one email the handler logs the first one in.
\<close>

theorem duplicate_email_counterexample:
  "users_collection [alice, alice_twin] (JStr ''a@x.com'') = Inr [alice, alice_twin]
   \<and> fst (POST (sample_env ''production'' [alice, alice_twin]) (login_request ''a@x.com'' ''pw1''))
       = \<lparr>status = 200, success = True, error = None, details = None, data = Some alice\<rparr>"
  by (simp add: POST_def login_request_def sample_env_def lookup_user_def check_password_def
        users_collection_def toy_compareSync_def alice_def alice_twin_def mk_user_def)

text \<open>
  C6, amended: when the store returns more than one document for the email, the handler
  checks the password against the first document only and answers as for a single
  match: success with that first document when the password is accepted, 401
  "Invalid Password" when it is rejected.
\<close>

theorem duplicate_email_first_match:
  assumes "truthy (optional_member body ''email'')"
    and "truthy (optional_member body ''password'')"
    and "clientPromise e = Inr (Some client)"
    and "client (optional_member body ''email'') = Inr (u # v # rest)"
    and "compareSync e (optional_member body ''password'') (password u) = Inr ok"
  shows "fst (POST e (JsonBody body)) =
           (if ok then \<lparr>status = 200, success = True, error = None, details = None,
                        data = Some u\<rparr>
            else failure 401 ''Invalid Password'' None)"
  using POST_validated [OF assms(1,2), of e] lookup_user_found [OF assms(3,4)]
    check_password_first [OF assms(5)]
  by simp

theorem duplicate_email_first_match_witness:
  "fst (POST (sample_env ''production'' [alice, alice_twin]) (login_request ''a@x.com'' ''other''))
     = failure 401 ''Invalid Password'' None"
proof -
  let ?e = "sample_env ''production'' [alice, alice_twin]"
  let ?b = "JObj [(''email'', JStr ''a@x.com''), (''password'', JStr ''other'')]"
  have te: "truthy (optional_member ?b ''email'')" by simp
  have tp: "truthy (optional_member ?b ''password'')" by simp
  have c: "clientPromise ?e = Inr (Some (users_collection [alice, alice_twin]))"
    by (simp add: sample_env_def)
  have two: "users_collection [alice, alice_twin] (optional_member ?b ''email'')
      = Inr (alice # alice_twin # [])"
    by (simp add: users_collection_def alice_def alice_twin_def mk_user_def)
  have bad: "compareSync ?e (optional_member ?b ''password'') (password alice) = Inr False"
    by (simp add: sample_env_def toy_compareSync_def alice_def mk_user_def)
  from duplicate_email_first_match [OF te tp c two bad] show ?thesis
    by (simp add: login_request_def)
qed

subsection \<open>Infrastructure failures\<close>

text \<open>
  C9. Every infrastructure failure is to carry a generic error text, with the message of
  the fault in development only.  The two inner \<^verbatim>\<open>catch\<close> blocks do that (see
  \<open>catch_block_responses\<close> below); the outer one does not.  Evaluated in production on
  a body whose password is the number 5, for which the comparison throws: the answer is
  500, has no details member, and its error text is the message of the thrown error.
\<close>

theorem unexpected_fault_leaks_message:
  "NODE_ENV (sample_env ''production'' [alice]) = Some ''production''
   \<and> fst (POST (sample_env ''production'' [alice])
            (JsonBody (JObj [(''email'', JStr ''a@x.com''), (''password'', JNum 5)])))
       = failure 500 ''Illegal arguments: number, string'' None"
  by (simp add: POST_def sample_env_def lookup_user_def check_password_def
        users_collection_def toy_compareSync_def alice_def mk_user_def
        unexpected_failure_def development_only_def)

text \<open>
  The three \<^verbatim>\<open>catch\<close> blocks, for a request that passes validation:
  \<^item> a rejected or falsy client gives 500 with the fixed text "Database connection
    failed. Please check your MongoDB configuration.", and a failed query gives 500
    with the fixed text "Database query failed."; the details member holds the message
    of the fault when NODE_ENV is "development" and is absent otherwise;
  \<^item> a fault thrown by the password comparison gives 500; its details member holds the
    stack (or the rendering of the fault) when NODE_ENV is "development" and is absent
    otherwise; when the fault is not an Error its error text is the fixed
    "Failed to Authenticate User";
  \<^item> outside development no response has a details member.
\<close>

lemma catch_block_responses:
  assumes "truthy (optional_member body ''email'')"
    and "truthy (optional_member body ''password'')"
  shows "(clientPromise e = Inl dbError \<longrightarrow>
            fst (POST e (JsonBody body)) =
              failure 500 ''Database connection failed. Please check your MongoDB configuration.''
                (if NODE_ENV e = Some ''development'' then Some (errorDetails dbError) else None))
         \<and> (clientPromise e = Inr None \<longrightarrow>
            fst (POST e (JsonBody body)) =
              failure 500 ''Database connection failed. Please check your MongoDB configuration.''
                (if NODE_ENV e = Some ''development''
                 then Some ''MongoDB client is not initialized'' else None))
         \<and> (clientPromise e = Inr (Some client)
              \<and> client (optional_member body ''email'') = Inl queryError \<longrightarrow>
            fst (POST e (JsonBody body)) =
              failure 500 ''Database query failed.''
                (if NODE_ENV e = Some ''development'' then Some (errorDetails queryError) else None))
         \<and> (clientPromise e = Inr (Some client)
              \<and> client (optional_member body ''email'') = Inr (u # rest)
              \<and> compareSync e (optional_member body ''password'') (password u) = Inl err \<longrightarrow>
            status (fst (POST e (JsonBody body))) = 500
            \<and> success (fst (POST e (JsonBody body))) = False
            \<and> data (fst (POST e (JsonBody body))) = None
            \<and> details (fst (POST e (JsonBody body))) =
                (if NODE_ENV e = Some ''development'' then Some (stack_or_string err) else None)
            \<and> (\<not> instanceof_Error err \<longrightarrow>
                 error (fst (POST e (JsonBody body))) = Some ''Failed to Authenticate User''))
         \<and> (NODE_ENV e \<noteq> Some ''development'' \<longrightarrow>
              details (fst (POST e (JsonBody body))) = None)"
proof -
  have eq: "POST e (JsonBody body) =
      lookup_user e (optional_member body ''email'') (optional_member body ''password'')"
    by (rule POST_validated [OF assms])
  have rejected: "fst (POST e (JsonBody body)) =
      failure 500 ''Database connection failed. Please check your MongoDB configuration.''
        (if NODE_ENV e = Some ''development'' then Some (errorDetails dbError) else None)"
    if "clientPromise e = Inl dbError"
    using that eq by (simp add: lookup_user_def connection_failed_def development_only_def)
  have falsy: "fst (POST e (JsonBody body)) =
      failure 500 ''Database connection failed. Please check your MongoDB configuration.''
        (if NODE_ENV e = Some ''development''
         then Some ''MongoDB client is not initialized'' else None)"
    if "clientPromise e = Inr None"
    using that eq by (simp add: lookup_user_def connection_failed_def development_only_def)
  have query: "fst (POST e (JsonBody body)) =
      failure 500 ''Database query failed.''
        (if NODE_ENV e = Some ''development'' then Some (errorDetails queryError) else None)"
    if "clientPromise e = Inr (Some client)"
      and "client (optional_member body ''email'') = Inl queryError"
    using that eq by (simp add: lookup_user_def query_failed_def development_only_def)
  have outer: "fst (POST e (JsonBody body)) = unexpected_failure e err"
    if "clientPromise e = Inr (Some client)"
      and "client (optional_member body ''email'') = Inr (u # rest)"
      and "compareSync e (optional_member body ''password'') (password u) = Inl err"
    using that eq by (simp add: lookup_user_def check_password_def)
  have generic: "error (unexpected_failure e err) = Some ''Failed to Authenticate User''"
    if "\<not> instanceof_Error err"
    using that by (cases err) (simp_all add: unexpected_failure_def failure_def)
  have unexpected: "status (unexpected_failure e err) = 500
      \<and> success (unexpected_failure e err) = False
      \<and> data (unexpected_failure e err) = None
      \<and> details (unexpected_failure e err) =
          (if NODE_ENV e = Some ''development'' then Some (stack_or_string err) else None)"
    by (simp add: unexpected_failure_def failure_def development_only_def)
  have prod: "details (fst (POST e (JsonBody body))) = None"
    if "NODE_ENV e \<noteq> Some ''development''"
    using that by (rule details_absent_outside_development)
  from rejected falsy query outer generic unexpected prod show ?thesis
    by presburger
qed

lemma catch_block_responses_sample:
  "fst (POST \<lparr>NODE_ENV = Some ''production'',
              clientPromise = Inl (ErrorInstance ''MongoNetworkError'' ''connect ECONNREFUSED'' None),
              compareSync = toy_compareSync\<rparr> (login_request ''a@x.com'' ''pw1''))
     = failure 500 ''Database connection failed. Please check your MongoDB configuration.'' None
   \<and> fst (POST \<lparr>NODE_ENV = Some ''development'',
              clientPromise = Inl (ErrorInstance ''MongoNetworkError'' ''connect ECONNREFUSED'' None),
              compareSync = toy_compareSync\<rparr> (login_request ''a@x.com'' ''pw1''))
     = failure 500 ''Database connection failed. Please check your MongoDB configuration.''
         (Some ''connect ECONNREFUSED'')
   \<and> fst (POST \<lparr>NODE_ENV = Some ''production'', clientPromise = Inr None,
              compareSync = toy_compareSync\<rparr> (login_request ''a@x.com'' ''pw1''))
     = failure 500 ''Database connection failed. Please check your MongoDB configuration.'' None
   \<and> fst (POST \<lparr>NODE_ENV = Some ''development'',
              clientPromise = Inr (Some (\<lambda>q. Inl (NonError ''cursor closed''))),
              compareSync = toy_compareSync\<rparr> (login_request ''a@x.com'' ''pw1''))
     = failure 500 ''Database query failed.'' (Some ''cursor closed'')
   \<and> fst (POST \<lparr>NODE_ENV = Some ''development'',
              clientPromise = Inr (Some (users_collection [alice])),
              compareSync = (\<lambda>s h. Inl (NonError ''boom''))\<rparr> (login_request ''a@x.com'' ''pw1''))
     = failure 500 ''Failed to Authenticate User'' (Some ''boom'')"
proof -
  let ?b = "JObj [(''email'', JStr ''a@x.com''), (''password'', JStr ''pw1'')]"
  let ?down = "ErrorInstance ''MongoNetworkError'' ''connect ECONNREFUSED'' None"
  let ?e1 = "\<lparr>NODE_ENV = Some ''production'', clientPromise = Inl ?down,
              compareSync = toy_compareSync\<rparr>"
  let ?e2 = "\<lparr>NODE_ENV = Some ''development'', clientPromise = Inl ?down,
              compareSync = toy_compareSync\<rparr>"
  let ?e3 = "\<lparr>NODE_ENV = Some ''production'', clientPromise = Inr None,
              compareSync = toy_compareSync\<rparr>"
  let ?q = "\<lambda>q::js_value. (Inl (NonError ''cursor closed'') :: thrown + User list)"
  let ?e4 = "\<lparr>NODE_ENV = Some ''development'', clientPromise = Inr (Some ?q),
              compareSync = toy_compareSync\<rparr>"
  let ?t = "\<lambda>(s::js_value) (h::string). (Inl (NonError ''boom'') :: thrown + bool)"
  let ?e5 = "\<lparr>NODE_ENV = Some ''development'',
              clientPromise = Inr (Some (users_collection [alice])), compareSync = ?t\<rparr>"
  have te: "truthy (optional_member ?b ''email'')" by simp
  have tp: "truthy (optional_member ?b ''password'')" by simp
  note r1 = catch_block_responses [OF te tp, of ?e1 ?down]
  note r2 = catch_block_responses [OF te tp, of ?e2 ?down]
  note r3 = catch_block_responses [OF te tp, of ?e3]
  note r4 = catch_block_responses [OF te tp, of ?e4 _ ?q "NonError ''cursor closed''"]
  note r5 = catch_block_responses [OF te tp, of ?e5 _ "users_collection [alice]" _ alice "[]"
      "NonError ''boom''"]
  have a1: "fst (POST ?e1 (JsonBody ?b)) =
      failure 500 ''Database connection failed. Please check your MongoDB configuration.'' None"
    using r1 by simp
  have a2: "fst (POST ?e2 (JsonBody ?b)) =
      failure 500 ''Database connection failed. Please check your MongoDB configuration.''
        (Some ''connect ECONNREFUSED'')"
    using r2 by simp
  have a3: "fst (POST ?e3 (JsonBody ?b)) =
      failure 500 ''Database connection failed. Please check your MongoDB configuration.'' None"
    using r3 by simp
  have a4: "fst (POST ?e4 (JsonBody ?b)) =
      failure 500 ''Database query failed.'' (Some ''cursor closed'')"
    using r4 by simp
  have found: "users_collection [alice] (optional_member ?b ''email'') = Inr (alice # [])"
    by (simp add: users_collection_def alice_def mk_user_def)
  have a5: "fst (POST ?e5 (JsonBody ?b)) =
      failure 500 ''Failed to Authenticate User'' (Some ''boom'')"
    using r5 found by (simp add: failure_def stack_or_string_def)
  from a1 a2 a3 a4 a5 show ?thesis by (simp add: login_request_def)
qed

section \<open>Properties of the students page\<close>

text \<open>
  C3. For an admin with a non-empty assigned barangay \<open>a\<close> the visible barangays are
  exactly the barangays whose id is \<open>a\<close>: no other id is visible, and \<open>a\<close> is visible
  whenever it is in the list.  For a master admin the visible barangays are all of them.
\<close>

theorem scoped_barangay_visibility:
  "(role u = admin \<and> assignedBarangayId u = Some a \<and> a \<noteq> [] \<longrightarrow>
      filteredBarangays (Some u) barangays = filter (\<lambda>b. bid b = a) barangays
      \<and> bid ` set (filteredBarangays (Some u) barangays) \<subseteq> {a}
      \<and> ((\<exists>b \<in> set barangays. bid b = a) \<longrightarrow>
           bid ` set (filteredBarangays (Some u) barangays) = {a}))
   \<and> (role u = master_admin \<longrightarrow> filteredBarangays (Some u) barangays = barangays)"
proof -
  have scoped: "filteredBarangays (Some u) barangays = filter (\<lambda>b. bid b = a) barangays"
    if "role u = admin" and "assignedBarangayId u = Some a" and "a \<noteq> []"
    using that by (simp add: filteredBarangays_def)
  have only: "bid ` set (filter (\<lambda>b. bid b = a) barangays) \<subseteq> {a}"
    by auto
  have all_of_it: "bid ` set (filter (\<lambda>b. bid b = a) barangays) = {a}"
    if "\<exists>b \<in> set barangays. bid b = a"
    using that by auto
  have unrestricted: "filteredBarangays (Some u) barangays = barangays"
    if "role u = master_admin"
    using that by (simp add: filteredBarangays_def split: option.splits)
  from scoped only all_of_it unrestricted show ?thesis by simp
qed

theorem scoped_barangay_visibility_witness:
  "role alice = admin \<and> assignedBarangayId alice = Some ''BrgyA''
   \<and> filteredBarangays (Some alice) [brgyA, brgyB] = [brgyA]
   \<and> bid ` set (filteredBarangays (Some alice) [brgyA, brgyB]) = {''BrgyA''}
   \<and> role root_user = master_admin
   \<and> filteredBarangays (Some root_user) [brgyA, brgyB] = [brgyA, brgyB]"
proof -
  have r: "role alice = admin" and s: "assignedBarangayId alice = Some ''BrgyA''"
    by (simp_all add: alice_def mk_user_def)
  have n: "''BrgyA'' \<noteq> []" by simp
  have m: "role root_user = master_admin"
    by (simp add: root_user_def mk_user_def)
  have ex: "\<exists>b \<in> set [brgyA, brgyB]. bid b = ''BrgyA''"
    by (simp add: brgyA_def)
  have f: "filter (\<lambda>b. bid b = ''BrgyA'') [brgyA, brgyB] = [brgyA]"
    by (simp add: brgyA_def brgyB_def)
  note t1 = scoped_barangay_visibility [of alice "''BrgyA''" "[brgyA, brgyB]"]
  note t2 = scoped_barangay_visibility [of root_user "''BrgyA''" "[brgyA, brgyB]"]
  from t1 r s n ex have g: "filteredBarangays (Some alice) [brgyA, brgyB]
        = filter (\<lambda>b. bid b = ''BrgyA'') [brgyA, brgyB]"
    and h: "bid ` set (filteredBarangays (Some alice) [brgyA, brgyB]) = {''BrgyA''}"
    by blast+
  from g f have g': "filteredBarangays (Some alice) [brgyA, brgyB] = [brgyA]"
    by (rule trans)
  from g' h have a: "filteredBarangays (Some alice) [brgyA, brgyB] = [brgyA]
      \<and> bid ` set (filteredBarangays (Some alice) [brgyA, brgyB]) = {''BrgyA''}"
    by (rule conjI)
  from t2 m have b: "filteredBarangays (Some root_user) [brgyA, brgyB] = [brgyA, brgyB]"
    by simp
  from r s m a b show ?thesis by blast
qed

text \<open>
  C4. An admin without an assigned barangay is not to see the unrestricted list: the
  comment above the filter says that for a regular admin the list only contains the
  assigned barangay.  The code does not keep to that.  Evaluated at an admin whose
  assignment is absent, and at one whose assignment is the empty string, the filter
  returns every barangay.
\<close>

theorem unscoped_admin_sees_every_barangay:
  "role carol = admin \<and> assignedBarangayId carol = None
   \<and> filteredBarangays (Some carol) [brgyA, brgyB] = [brgyA, brgyB]
   \<and> role (carol\<lparr>assignedBarangayId := Some []\<rparr>) = admin
   \<and> filteredBarangays (Some (carol\<lparr>assignedBarangayId := Some []\<rparr>)) [brgyA, brgyB]
       = [brgyA, brgyB]"
  by (simp add: filteredBarangays_def carol_def mk_user_def)

text \<open>
  The same fall-through at every admin without a truthy assignment and every list.
\<close>

lemma unscoped_admin_falls_through:
  assumes "role u = admin"
    and "assignedBarangayId u = None \<or> assignedBarangayId u = Some []"
  shows "filteredBarangays (Some u) barangays = barangays"
  using assms by (auto simp add: filteredBarangays_def)

section \<open>Properties of the admin management page\<close>

lemma delete_button_rows:
  "DeleteButton i \<in> set (concat (map row_actions as))
     \<longleftrightarrow> (\<exists>a \<in> set as. uid a = i \<and> role a \<noteq> master_admin)"
  by (induction as) (auto simp add: row_actions_def)

lemma delete_button_rendered:
  assumes "DeleteButton i \<in> set (controls (AdminManagementPage user ps))"
  shows "\<exists>a \<in> set (admins ps). uid a = i \<and> role a \<noteq> master_admin"
proof -
  from assms have "DeleteButton i \<in> set (concat (map row_actions (admins ps)))"
    by (simp only: AdminManagementPage_def table_controls_def page_view.simps
          split: if_splits) simp_all
  then show ?thesis by (simp only: delete_button_rows)
qed

lemma click_not_rendered:
  assumes "c \<notin> set (controls (AdminManagementPage user (snd sp)))"
  shows "click svc user confirmed c sp = sp"
  using assms by (simp add: click_def)




text \<open>
  When the ids of the listed accounts are distinct, no delete button carries the id of
  a listed master admin, and a click for that id changes nothing.
\<close>

lemma distinct_ids_no_master_delete_button:
  assumes "target \<in> set (admins ps)"
    and "role target = master_admin"
    and "distinct (map uid (admins ps))"
  shows "DeleteButton (uid target) \<notin> set (controls (AdminManagementPage user ps))
         \<and> click svc user confirmed (DeleteButton (uid target)) (st, ps) = (st, ps)"
proof -
  have absent: "DeleteButton (uid target) \<notin> set (controls (AdminManagementPage user ps))"
  proof
    assume "DeleteButton (uid target) \<in> set (controls (AdminManagementPage user ps))"
    from delete_button_rendered [OF this] obtain a where
      a: "a \<in> set (admins ps)" "uid a = uid target" "role a \<noteq> master_admin"
      by blast
    from assms(3) have "inj_on uid (set (admins ps))"
      by (simp add: distinct_map)
    with a(1,2) assms(1) have "a = target"
      by (auto dest: inj_onD)
    with a(3) assms(2) show False by simp
  qed
  moreover from absent
  have "click svc user confirmed (DeleteButton (uid target)) (st, ps) = (st, ps)"
    by (simp add: click_not_rendered)
  ultimately show ?thesis by simp
qed

text \<open>
  C8, as stated in the specification: every admin-management action of a regular admin
  is denied.  It does not hold for the actions of the page: neither the rendering nor
  \<^verbatim>\<open>handleDeleteAdmin\<close> reads the role of the user, so with a regular admin as the
  user the delete button of another admin is rendered and a confirmed click deletes
  that account from the storage.
\<close>

theorem regular_admin_delete_counterexample:
  "role alice = admin
   \<and> DeleteButton (uid carol)
       \<in> set (controls (AdminManagementPage (Some alice) (loaded_page [root_user, alice, carol])))
   \<and> fst (click list_service (Some alice) True (DeleteButton (uid carol))
            ([root_user, alice, carol], loaded_page [root_user, alice, carol]))
       = [root_user, alice]"
  by (simp add: click_def AdminManagementPage_def table_controls_def row_actions_def
        handleDeleteAdmin_def loadAdmins_def list_service_def loaded_page_def
        root_user_def alice_def carol_def mk_user_def)

text \<open>
  C8, amended: for every signed-in user whose role is not master admin the page pushes
  a redirect to the dashboard, and the sidebar has no entry for the admin management
  page; for a master admin there is no redirect and the sidebar has the entry.
\<close>

theorem regular_admin_redirected:
  "(role u \<noteq> master_admin \<longrightarrow>
      redirect (AdminManagementPage (Some u) ps) = Some ''/dashboard''
      \<and> ''/admin'' \<notin> snd ` set (navItems (Some u)))
   \<and> (role u = master_admin \<longrightarrow>
      redirect (AdminManagementPage (Some u) ps) = None
      \<and> (''Admin Management'', ''/admin'') \<in> set (navItems (Some u)))"
  by (simp add: AdminManagementPage_def redirect_effect_def navItems_def
        commonNavItems_def masterAdminNavItems_def)

theorem regular_admin_redirected_witness:
  "role alice \<noteq> master_admin
   \<and> redirect (AdminManagementPage (Some alice) (loaded_page [root_user, alice, carol]))
       = Some ''/dashboard''
   \<and> ''/admin'' \<notin> snd ` set (navItems (Some alice))
   \<and> role root_user = master_admin
   \<and> redirect (AdminManagementPage (Some root_user) (loaded_page [root_user, alice, carol]))
       = None
   \<and> (''Admin Management'', ''/admin'') \<in> set (navItems (Some root_user))"
proof -
  have a: "role alice \<noteq> master_admin"
    by (simp add: alice_def mk_user_def)
  have m: "role root_user = master_admin"
    by (simp add: root_user_def mk_user_def)
  from a m
    regular_admin_redirected [of alice "loaded_page [root_user, alice, carol]"]
    regular_admin_redirected [of root_user "loaded_page [root_user, alice, carol]"]
  show ?thesis by simp
qed

end
